theory Spec2Isabelle
  imports Main "HOL-Library.Sublist" "HOL-Library.AList"
begin

section \<open>Python values: strings, exceptions, indexing\<close>

text \<open>
  The program is \<^verbatim>\<open>src/UI.py\<close>. A Python \<^verbatim>\<open>str\<close> is a sequence of Unicode code points
  and is modelled as the list of their numbers (what \<^verbatim>\<open>ord\<close> gives); \<open>py\<close> writes a literal. An exception is
  a value: the name of its class and its message (what \<^verbatim>\<open>str(e)\<close> gives).
\<close>

type_synonym pystr = "int list"

definition py :: "string \<Rightarrow> pystr" where
  "py s = map of_char s"

datatype exn = Exn (exn_class: string) (exn_msg: pystr)

definition IndexError :: exn where
  "IndexError = Exn ''IndexError'' (py ''list index out of range'')"

definition then_do :: "exn + 'a \<Rightarrow> ('a \<Rightarrow> exn + 'b) \<Rightarrow> exn + 'b" where
  "then_do m f = (case m of Inl e \<Rightarrow> Inl e | Inr v \<Rightarrow> f v)"

text \<open>\<^verbatim>\<open>xs[i]\<close>: a negative index counts from the end, an index outside the list raises.\<close>

definition py_index :: "'a list \<Rightarrow> int \<Rightarrow> exn + 'a" where
  "py_index xs i =
     (if 0 \<le> i \<and> i < int (length xs) then Inr (xs ! nat i)
      else if i < 0 \<and> - i \<le> int (length xs) then Inr (xs ! nat (int (length xs) + i))
      else Inl IndexError)"

text \<open>
  The whitespace of \<^verbatim>\<open>str.isspace\<close>, \<^verbatim>\<open>str.strip\<close>, \<^verbatim>\<open>str.split\<close> and of \<^verbatim>\<open>\s\<close> in a
  pattern over \<^verbatim>\<open>str\<close>: U+0009 to U+000D, U+001C to U+0020, U+0085, U+00A0, U+1680,
  U+2000 to U+200A, U+2028, U+2029, U+202F, U+205F and U+3000.
\<close>

definition isspace :: "int \<Rightarrow> bool" where
  "isspace c = ((9 \<le> c \<and> c \<le> 13) \<or> (28 \<le> c \<and> c \<le> 32) \<or> c = 133 \<or> c = 160 \<or> c = 5760
      \<or> (8192 \<le> c \<and> c \<le> 8202) \<or> c = 8232 \<or> c = 8233 \<or> c = 8239 \<or> c = 8287 \<or> c = 12288)"

text \<open>
  What the source takes from the Python runtime and does not define: the Unicode tables
  behind \<^verbatim>\<open>\d\<close> and \<^verbatim>\<open>\w\<close>, and the conversions \<^verbatim>\<open>float\<close> and \<^verbatim>\<open>int\<close> of a
  string, which give a number or raise \<^verbatim>\<open>ValueError\<close> with a message. They are
  parameters of the model, and \<open>'f\<close> is the type of floats.
\<close>

record 'f runtime =
  is_digit :: "int \<Rightarrow> bool"
  is_word :: "int \<Rightarrow> bool"
  float_of :: "pystr \<Rightarrow> pystr + 'f"
  int_of :: "pystr \<Rightarrow> pystr + int"

definition to_float :: "'f runtime \<Rightarrow> pystr \<Rightarrow> exn + 'f" where
  "to_float R s = (case float_of R s of Inl m \<Rightarrow> Inl (Exn ''ValueError'' m) | Inr v \<Rightarrow> Inr v)"

definition to_int :: "'f runtime \<Rightarrow> pystr \<Rightarrow> exn + int" where
  "to_int R s = (case int_of R s of Inl m \<Rightarrow> Inl (Exn ''ValueError'' m) | Inr v \<Rightarrow> Inr v)"

text \<open>\<^verbatim>\<open>s.strip()\<close>: whitespace removed at both ends.\<close>

definition strip :: "pystr \<Rightarrow> pystr" where
  "strip s = rev (dropWhile isspace (rev (dropWhile isspace s)))"

text \<open>
  \<^verbatim>\<open>s.split(sep)\<close> for a non-empty separator: the pieces between the occurrences of
  \<open>sep\<close>, found from the left without overlap; always at least one piece. (Python raises
  on an empty separator; the source passes only non-empty literals.)
\<close>

function split_acc :: "pystr \<Rightarrow> pystr \<Rightarrow> pystr \<Rightarrow> pystr list" where
  "split_acc sep cur [] = [cur]"
| "split_acc sep cur (c # cs) =
     (if sep \<noteq> [] \<and> prefix sep (c # cs)
      then cur # split_acc sep [] (drop (length sep) (c # cs))
      else split_acc sep (cur @ [c]) cs)"
  by pat_completeness auto
termination
  by (relation "measure (\<lambda>(sep, cur, s). length s)") auto

definition split_on :: "pystr \<Rightarrow> pystr \<Rightarrow> pystr list" where
  "split_on sep s = split_acc sep [] s"

text \<open>\<^verbatim>\<open>s.split()\<close>: the maximal runs of non-whitespace characters.\<close>

fun tokens_acc :: "pystr \<Rightarrow> pystr \<Rightarrow> pystr list" where
  "tokens_acc cur [] = (if cur = [] then [] else [cur])"
| "tokens_acc cur (c # cs) =
     (if isspace c then (if cur = [] then tokens_acc [] cs else cur # tokens_acc [] cs)
      else tokens_acc (cur @ [c]) cs)"

definition split_ws :: "pystr \<Rightarrow> pystr list" where
  "split_ws s = tokens_acc [] s"

text \<open>\<^verbatim>\<open>s.replace(old, new)\<close> for a non-empty \<open>old\<close>: every occurrence, from the left.\<close>

function replace :: "pystr \<Rightarrow> pystr \<Rightarrow> pystr \<Rightarrow> pystr" where
  "replace old new [] = []"
| "replace old new (c # cs) =
     (if old \<noteq> [] \<and> prefix old (c # cs)
      then new @ replace old new (drop (length old) (c # cs))
      else c # replace old new cs)"
  by pat_completeness auto
termination
  by (relation "measure (\<lambda>(old, new, s). length s)") auto

section \<open>Regular expressions of the source\<close>

text \<open>
  The four patterns use literals, the classes \<^verbatim>\<open>\s\<close>, \<^verbatim>\<open>\d\<close>, \<^verbatim>\<open>\w\<close>, the greedy
  quantifiers \<^verbatim>\<open>+\<close>, \<^verbatim>\<open>*\<close>, \<^verbatim>\<open>{n}\<close> on single characters, and capture groups that
  do not nest. A pattern is a list of items; \<open>Rep a lo hi\<close> is the atom \<open>a\<close> repeated at
  least \<open>lo\<close> and at most \<open>hi\<close> times.
\<close>

datatype atom = Lit int | Spc | Dig | Wrd

datatype item = Rep atom nat "nat option" | Open | Close

text \<open>
  Under \<^verbatim>\<open>re.IGNORECASE\<close> a literal matches in either case. The one pattern compiled
  with the flag has the letters F, o, r, m and N, whose only case partners are in ASCII.
\<close>

definition lower :: "int \<Rightarrow> int" where
  "lower c = (if 65 \<le> c \<and> c \<le> 90 then c + 32 else c)"

fun atom_ok :: "'f runtime \<Rightarrow> bool \<Rightarrow> atom \<Rightarrow> int \<Rightarrow> bool" where
  "atom_ok R ic (Lit a) c = (if ic then lower a = lower c else a = c)"
| "atom_ok R ic Spc c = isspace c"
| "atom_ok R ic Dig c = is_digit R c"
| "atom_ok R ic Wrd c = is_word R c"

fun first_some :: "'a option list \<Rightarrow> 'a option" where
  "first_some [] = None"
| "first_some (None # xs) = first_some xs"
| "first_some (Some x # xs) = Some x"

text \<open>
  Matching at the start of \<open>s\<close>, with backtracking: a repetition takes as many characters
  as it can and gives them back one at a time while the rest of the pattern fails. The
  result is the captured groups and the text left after the match.
\<close>

fun match_items ::
  "'f runtime \<Rightarrow> bool \<Rightarrow> item list \<Rightarrow> pystr option \<Rightarrow> pystr list \<Rightarrow> pystr
     \<Rightarrow> (pystr list \<times> pystr) option"
where
  "match_items R ic [] cur done s = Some (done, s)"
| "match_items R ic (Open # its) cur done s = match_items R ic its (Some []) done s"
| "match_items R ic (Close # its) cur done s =
     match_items R ic its None (done @ [case cur of Some g \<Rightarrow> g | None \<Rightarrow> []]) s"
| "match_items R ic (Rep a lo hi # its) cur done s =
     (let n = length (takeWhile (atom_ok R ic a) s);
          m = (case hi of None \<Rightarrow> n | Some h \<Rightarrow> min h n)
      in if m < lo then None
         else first_some
           (map (\<lambda>k. match_items R ic its (map_option (\<lambda>g. g @ take k s) cur) done (drop k s))
                (rev [lo ..< Suc m])))"

text \<open>\<^verbatim>\<open>pattern.search(s)\<close>: the groups of the leftmost match.\<close>

fun search :: "'f runtime \<Rightarrow> bool \<Rightarrow> item list \<Rightarrow> pystr \<Rightarrow> pystr list option" where
  "search R ic p [] = map_option fst (match_items R ic p None [] [])"
| "search R ic p (c # cs) =
     (case match_items R ic p None [] (c # cs) of
        Some (gs, rest) \<Rightarrow> Some gs
      | None \<Rightarrow> search R ic p cs)"

text \<open>
  \<^verbatim>\<open>pattern.findall(s)\<close>: the groups of every match, from the left without overlap.
  \<open>skip\<close> counts the characters of the last match that are still to be passed over.
  (The patterns of the source never match the empty string.)
\<close>

fun findall_from :: "'f runtime \<Rightarrow> bool \<Rightarrow> item list \<Rightarrow> nat \<Rightarrow> pystr \<Rightarrow> pystr list list" where
  "findall_from R ic p skip [] = []"
| "findall_from R ic p skip (c # cs) =
     (if 0 < skip then findall_from R ic p (skip - 1) cs
      else (case match_items R ic p None [] (c # cs) of
              Some (gs, rest) \<Rightarrow> gs # findall_from R ic p (length cs - length rest) cs
            | None \<Rightarrow> findall_from R ic p 0 cs))"

definition findall :: "'f runtime \<Rightarrow> bool \<Rightarrow> item list \<Rightarrow> pystr \<Rightarrow> pystr list list" where
  "findall R ic p s = findall_from R ic p 0 s"

definition lits :: "string \<Rightarrow> item list" where
  "lits s = map (\<lambda>c. Rep (Lit c) 1 (Some 1)) (py s)"

definition digits :: "nat \<Rightarrow> item" where
  "digits n = Rep Dig n (Some n)"

text \<open>\<^verbatim>\<open>period\s+(Q\d)\<close>\<close>

definition period_pattern :: "item list" where
  "period_pattern = lits ''period'' @ [Rep Spc 1 None, Open] @ lits ''Q'' @ [digits 1, Close]"

text \<open>\<^verbatim>\<open>\(From\s+(\d{2}/\d{2}/\d{2})\s+to\s+(\d{2}/\d{2}/\d{2})\<close>\<close>

definition date_range_pattern :: "item list" where
  "date_range_pattern =
     lits ''(From'' @ [Rep Spc 1 None, Open, digits 2] @ lits ''/'' @ [digits 2] @ lits ''/''
     @ [digits 2, Close, Rep Spc 1 None] @ lits ''to''
     @ [Rep Spc 1 None, Open, digits 2] @ lits ''/'' @ [digits 2] @ lits ''/'' @ [digits 2, Close]"

text \<open>\<^verbatim>\<open>Form\s+No\.\s*(\d{2}\w)\<close>, compiled with \<^verbatim>\<open>re.IGNORECASE\<close>\<close>

definition form_no_box_pattern :: "item list" where
  "form_no_box_pattern =
     lits ''Form'' @ [Rep Spc 1 None] @ lits ''No.''
     @ [Rep Spc 0 None, Open, digits 2, Rep Wrd 1 (Some 1), Close]"

text \<open>\<^verbatim>\<open>Date:\s*(\d{2}/\d{2}/\d{4})\<close>\<close>

definition date_pattern :: "item list" where
  "date_pattern =
     lits ''Date:'' @ [Rep Spc 0 None, Open, digits 2] @ lits ''/'' @ [digits 2] @ lits ''/''
     @ [digits 4, Close]"

section \<open>Tables of pandas\<close>

text \<open>
  A cell holds a string, a float, an integer, or nothing (\<^verbatim>\<open>None\<close> and \<^verbatim>\<open>NaN\<close>, which
  pandas treats alike as missing). A \<^verbatim>\<open>DataFrame\<close> is its column labels and its rows;
  \<^verbatim>\<open>ignore_index=True\<close> numbers the rows from 0, so the row labels are the positions.
\<close>

datatype 'f cell = Str pystr | Float 'f | Integer int | NA

record 'f dataframe =
  columns :: "pystr list"
  rows :: "'f cell list list"

definition cell_at :: "pystr list \<Rightarrow> 'f cell list \<Rightarrow> pystr \<Rightarrow> 'f cell" where
  "cell_at cols r c = (case map_of (zip cols r) c of Some v \<Rightarrow> v | None \<Rightarrow> NA)"

definition column_values :: "'f dataframe \<Rightarrow> pystr \<Rightarrow> 'f cell list" where
  "column_values df c = map (\<lambda>r. cell_at (columns df) r c) (rows df)"

text \<open>The labels of several collections in the order in which they are first seen.\<close>

fun add_new :: "'a list \<Rightarrow> 'a list \<Rightarrow> 'a list" where
  "add_new seen [] = seen"
| "add_new seen (x # xs) = add_new (if x \<in> set seen then seen else seen @ [x]) xs"

definition ordered_union :: "'a list list \<Rightarrow> 'a list" where
  "ordered_union xss = add_new [] (concat xss)"

text \<open>\<^verbatim>\<open>pd.DataFrame({label: [values], ...})\<close> with columns of one length.\<close>

definition DataFrame_dict :: "(pystr \<times> 'f cell list) list \<Rightarrow> 'f dataframe" where
  "DataFrame_dict d = \<lparr>columns = map fst d, rows = transpose (map snd d)\<rparr>"

text \<open>
  \<^verbatim>\<open>pd.DataFrame([record, ...])\<close>: one row per record, the columns are the keys in the
  order first seen, a key a record lacks is missing in its row. No record at all gives a
  table with no row and no column.
\<close>

definition DataFrame_records :: "(pystr \<times> 'f cell) list list \<Rightarrow> 'f dataframe" where
  "DataFrame_records ds =
     (let cols = ordered_union (map (map fst) ds)
      in \<lparr>columns = cols,
          rows = map (\<lambda>d. map (\<lambda>c. case map_of d c of Some v \<Rightarrow> v | None \<Rightarrow> NA) cols) ds\<rparr>)"

fun join :: "pystr \<Rightarrow> pystr list \<Rightarrow> pystr" where
  "join sep [] = []"
| "join sep [x] = x"
| "join sep (x # y # ys) = x @ sep @ join sep (y # ys)"

text \<open>
  \<^verbatim>\<open>repr\<close> of a list of labels free of quotes, backslashes and unprintable characters
  (the labels of this program are): each label between single quotes.
\<close>

definition repr_labels :: "pystr list \<Rightarrow> pystr" where
  "repr_labels ls = py ''['' @ join (py '', '') (map (\<lambda>l. [39] @ l @ [39]) ls) @ py '']''"

text \<open>
  \<^verbatim>\<open>df.dropna(subset=labels, how='all')\<close>: pandas first looks every label up among the
  columns and raises \<^verbatim>\<open>KeyError\<close> with the list of those it does not find; otherwise it
  drops the rows in which every cell under these labels is missing.
\<close>

definition dropna_all :: "pystr list \<Rightarrow> 'f dataframe \<Rightarrow> exn + 'f dataframe" where
  "dropna_all labels df =
     (let absent = filter (\<lambda>c. c \<notin> set (columns df)) labels
      in if absent \<noteq> [] then Inl (Exn ''KeyError'' (repr_labels absent))
         else Inr (df\<lparr>rows := filter (\<lambda>r. \<not> list_all (\<lambda>c. cell_at (columns df) r c = NA) labels)
                                  (rows df)\<rparr>))"

text \<open>
  \<^verbatim>\<open>pd.concat(frames, ignore_index=True)\<close>: the columns are the union of the frames'
  columns in the order first seen, the rows are the frames' rows in order, each with the
  columns it lacks missing. An empty list of frames raises.
\<close>

definition reindex :: "pystr list \<Rightarrow> 'f dataframe \<Rightarrow> 'f cell list list" where
  "reindex cols df = map (\<lambda>r. map (cell_at (columns df) r) cols) (rows df)"

definition pd_concat :: "'f dataframe list \<Rightarrow> exn + 'f dataframe" where
  "pd_concat dfs =
     (if dfs = [] then Inl (Exn ''ValueError'' (py ''No objects to concatenate''))
      else let cols = ordered_union (map columns dfs)
           in Inr \<lparr>columns = cols, rows = concat (map (reindex cols) dfs)\<rparr>)"

section \<open>TDS Returns: fields by pattern, line items by table\<close>

text \<open>
  What \<^verbatim>\<open>pdfplumber\<close> gives for a document: opening it raises or gives the pages; on each
  page \<^verbatim>\<open>extract_text()\<close> raises or gives a text or \<^verbatim>\<open>None\<close>, and \<^verbatim>\<open>extract_tables()\<close>
  raises or gives the tables, a table being rows of cells, a cell a text or \<^verbatim>\<open>None\<close>.
\<close>

type_synonym row = "pystr option list"

record page =
  extract_text :: "exn + pystr option"
  extract_tables :: "exn + row list list"

type_synonym plumber = "exn + page list"

text \<open>\<^verbatim>\<open>for page in pdf.pages: extracted_text += page.extract_text() or ""\<close>\<close>

fun combine_text :: "pystr \<Rightarrow> page list \<Rightarrow> exn + pystr" where
  "combine_text extracted_text [] = Inr extracted_text"
| "combine_text extracted_text (p # ps) =
     then_do (extract_text p)
       (\<lambda>t. combine_text (extracted_text @ (case t of None \<Rightarrow> [] | Some s \<Rightarrow> s)) ps)"

text \<open>\<^verbatim>\<open>match.group(n)\<close> for a group the pattern has.\<close>

definition group :: "pystr list \<Rightarrow> nat \<Rightarrow> pystr" where
  "group gs n = (if 0 < n \<and> n \<le> length gs then gs ! (n - 1) else [])"

definition form_no_matches :: "'f runtime \<Rightarrow> pystr \<Rightarrow> pystr list" where
  "form_no_matches R extracted_text =
     map (\<lambda>gs. group gs 1) (findall R True form_no_box_pattern extracted_text)"

definition details_of_text :: "'f runtime \<Rightarrow> pystr \<Rightarrow> 'f dataframe" where
  "details_of_text R extracted_text =
     (let period = search R False period_pattern extracted_text;
          date_range = search R False date_range_pattern extracted_text;
          ms = form_no_matches R extracted_text;
          form_no = (if 1 < length ms then ms ! 1 else py ''Not found'');
          date = search R False date_pattern extracted_text
      in DataFrame_dict
           [(py ''Period'',
               [Str (case period of Some gs \<Rightarrow> group gs 1 | None \<Rightarrow> py ''Not found'')]),
            (py ''Date Range'',
               [Str (case date_range of Some gs \<Rightarrow> group gs 1 @ py '' to '' @ group gs 2
                     | None \<Rightarrow> py ''Not found'')]),
            (py ''Form No.'', [Str form_no]),
            (py ''Date'',
               [Str (case date of Some gs \<Rightarrow> group gs 1 | None \<Rightarrow> py ''Not found'')])])"

text \<open>The body of the \<^verbatim>\<open>try\<close> block, and the function with its handler.\<close>

definition extract_details_body :: "'f runtime \<Rightarrow> plumber \<Rightarrow> exn + 'f dataframe" where
  "extract_details_body R pdf =
     then_do pdf (\<lambda>pages. then_do (combine_text [] pages) (\<lambda>t. Inr (details_of_text R t)))"

definition error_frame :: "exn \<Rightarrow> 'f dataframe" where
  "error_frame e = DataFrame_dict [(py ''Error'', [Str (exn_msg e)])]"

definition extract_details_from_pdf :: "'f runtime \<Rightarrow> plumber \<Rightarrow> 'f dataframe" where
  "extract_details_from_pdf R pdf =
     (case extract_details_body R pdf of Inl e \<Rightarrow> error_frame e | Inr df \<Rightarrow> df)"

text \<open>The six headers; the rupee sign is U+20B9.\<close>

definition headers :: "pystr list" where
  "headers = [py ''Sr. No.'', py ''Return Type'', py ''No. of Deductee / Party Records'',
              py ''Amount Paid ('' @ [8377] @ py '')'',
              py ''Tax Deducted / Collected ('' @ [8377] @ py '')'',
              py ''Tax Deposited ('' @ [8377] @ py '')'']"

text \<open>The rows of every non-empty table of every page, in order.\<close>

definition append_tables :: "row list list \<Rightarrow> row list \<Rightarrow> row list" where
  "append_tables tables extracted_data =
     fold (\<lambda>table acc. if table \<noteq> [] then fold (\<lambda>row acc'. acc' @ [row]) table acc else acc)
          tables extracted_data"

fun collect_rows :: "row list \<Rightarrow> page list \<Rightarrow> exn + row list" where
  "collect_rows extracted_data [] = Inr extracted_data"
| "collect_rows extracted_data (p # ps) =
     then_do (extract_tables p) (\<lambda>tables. collect_rows (append_tables tables extracted_data) ps)"

definition cell_of :: "pystr option \<Rightarrow> 'f cell" where
  "cell_of x = (case x of None \<Rightarrow> NA | Some s \<Rightarrow> Str s)"

text \<open>
  Lines 64 to 73: the rows with as many cells as there are headers become records, and the
  first record is popped when more than one record is there and its \<^verbatim>\<open>"Sr. No."\<close> cell is
  the header label.
\<close>

definition keep_row :: "row \<Rightarrow> (pystr \<times> 'f cell) list list \<Rightarrow> (pystr \<times> 'f cell) list list" where
  "keep_row r table_data =
     (if length r = length headers then table_data @ [zip headers (map cell_of r)] else table_data)"

definition pop_header :: "(pystr \<times> 'f cell) list list \<Rightarrow> (pystr \<times> 'f cell) list list" where
  "pop_header table_data =
     (if 1 < length table_data
         \<and> map_of (table_data ! 0) (py ''Sr. No.'') = Some (Str (py ''Sr. No.''))
      then tl table_data else table_data)"

definition table_data_of :: "row list \<Rightarrow> (pystr \<times> 'f cell) list list" where
  "table_data_of extracted_data = pop_header (fold keep_row extracted_data [])"

definition extract_table_body :: "plumber \<Rightarrow> exn + 'f dataframe" where
  "extract_table_body pdf =
     then_do pdf (\<lambda>pages. then_do (collect_rows [] pages)
       (\<lambda>extracted_data. dropna_all headers (DataFrame_records (table_data_of extracted_data))))"

definition extract_table_from_pdf :: "plumber \<Rightarrow> 'f dataframe" where
  "extract_table_from_pdf pdf =
     (case extract_table_body pdf of Inl e \<Rightarrow> error_frame e | Inr df \<Rightarrow> df)"

section \<open>TDS Payments, HDFC Bank: fields at fixed lines\<close>

text \<open>
  \<^verbatim>\<open>process_hdfc_bank\<close>: the text of every page followed by a newline. A page without
  text gives \<^verbatim>\<open>None\<close>, and \<^verbatim>\<open>None + "\n"\<close> raises \<^verbatim>\<open>TypeError\<close>. Nothing is caught
  here.
\<close>

fun hdfc_pages :: "pystr \<Rightarrow> page list \<Rightarrow> exn + pystr" where
  "hdfc_pages extracted_text [] = Inr extracted_text"
| "hdfc_pages extracted_text (p # ps) =
     then_do (extract_text p)
       (\<lambda>t. case t of
               None \<Rightarrow> Inl (Exn ''TypeError''
                            (py ''unsupported operand type(s) for +: '' @ [39] @ py ''NoneType''
                             @ [39] @ py '' and '' @ [39] @ py ''str'' @ [39]))
             | Some s \<Rightarrow> hdfc_pages (extracted_text @ s @ [10]) ps)"

definition process_hdfc_bank :: "plumber \<Rightarrow> exn + pystr" where
  "process_hdfc_bank pdf = then_do pdf (\<lambda>pages. hdfc_pages [] pages)"

text \<open>
  The eleven entries of the record of \<^verbatim>\<open>parse_hdfc_bank_text\<close>, each as the source
  writes it over \<open>ls\<close>, the lines of the text. \<open>number\<close> is
  \<^verbatim>\<open>float(s.replace(",", ""))\<close> and \<open>whole\<close> is \<^verbatim>\<open>int(s.replace(",", ""))\<close>.
\<close>

definition number :: "'f runtime \<Rightarrow> pystr \<Rightarrow> exn + 'f" where
  "number R s = to_float R (replace (py '','') [] s)"

definition whole :: "'f runtime \<Rightarrow> pystr \<Rightarrow> exn + int" where
  "whole R s = to_int R (replace (py '','') [] s)"

text \<open>\<^verbatim>\<open>lines[i].split()[j]\<close>\<close>

definition token :: "pystr list \<Rightarrow> int \<Rightarrow> int \<Rightarrow> exn + pystr" where
  "token ls i j = then_do (py_index ls i) (\<lambda>l. py_index (split_ws l) j)"

definition date_of_receipt :: "pystr list \<Rightarrow> exn + pystr" where
  "date_of_receipt ls = token ls 12 (- 1)"

definition nature_of_payment :: "pystr list \<Rightarrow> exn + pystr" where
  "nature_of_payment ls =
     then_do (py_index ls 7) (\<lambda>l. Inr (replace (py ''Nature of Payment '') [] (strip l)))"

definition basic_tax :: "'f runtime \<Rightarrow> pystr list \<Rightarrow> exn + 'f" where
  "basic_tax R ls =
     then_do (py_index ls 9) (\<lambda>l. number R (strip (replace (py ''Basic Tax'') [] l)))"

definition interest :: "'f runtime \<Rightarrow> pystr list \<Rightarrow> exn + 'f" where
  "interest R ls = then_do (token ls 14 1) (number R)"

definition penalty :: "'f runtime \<Rightarrow> pystr list \<Rightarrow> exn + 'f" where
  "penalty R ls = then_do (token ls 12 1) (number R)"

definition fee_234E :: "'f runtime \<Rightarrow> pystr list \<Rightarrow> exn + 'f" where
  "fee_234E R ls = then_do (token ls 15 3) (number R)"

definition total_amount :: "'f runtime \<Rightarrow> pystr list \<Rightarrow> exn + 'f" where
  "total_amount R ls =
     then_do (py_index ls 16) (\<lambda>l. then_do (py_index (split_on (py ''Drawn on'') l) 0)
       (\<lambda>t. number R (strip (replace (py ''TOTAL'') [] t))))"

definition drawn_on :: "pystr list \<Rightarrow> exn + pystr" where
  "drawn_on ls =
     then_do (py_index ls 16) (\<lambda>l. then_do (py_index (split_on (py ''Drawn on'') l) (- 1))
       (\<lambda>t. Inr (strip t)))"

definition payment_realisation_date :: "pystr list \<Rightarrow> exn + pystr" where
  "payment_realisation_date ls = token ls 19 (- 1)"

definition challan_no :: "'f runtime \<Rightarrow> pystr list \<Rightarrow> exn + int" where
  "challan_no R ls = then_do (token ls 10 (- 1)) (whole R)"

definition challan_serial_no :: "'f runtime \<Rightarrow> pystr list \<Rightarrow> exn + int" where
  "challan_serial_no R ls = then_do (token ls 13 (- 1)) (whole R)"

text \<open>
  The dictionary display evaluates its entries from first to last, and the first
  exception leaves the function.
\<close>

definition parse_hdfc_bank_text :: "'f runtime \<Rightarrow> pystr \<Rightarrow> exn + (pystr \<times> 'f cell) list" where
  "parse_hdfc_bank_text R raw_text =
     (let ls = split_on [10] raw_text in
      then_do (date_of_receipt ls) (\<lambda>v1.
      then_do (nature_of_payment ls) (\<lambda>v2.
      then_do (basic_tax R ls) (\<lambda>v3.
      then_do (interest R ls) (\<lambda>v4.
      then_do (penalty R ls) (\<lambda>v5.
      then_do (fee_234E R ls) (\<lambda>v6.
      then_do (total_amount R ls) (\<lambda>v7.
      then_do (drawn_on ls) (\<lambda>v8.
      then_do (payment_realisation_date ls) (\<lambda>v9.
      then_do (challan_no R ls) (\<lambda>v10.
      then_do (challan_serial_no R ls) (\<lambda>v11.
        Inr [(py ''Date of Receipt'', Str v1),
             (py ''Nature of Payment'', Str v2),
             (py ''Basic Tax'', Float v3),
             (py ''Interest'', Float v4),
             (py ''Penalty'', Float v5),
             (py ''Fee (Sec. 234E)'', Float v6),
             (py ''TOTAL Amount'', Float v7),
             (py ''Drawn on'', Str v8),
             (py ''Payment Realisation Date'', Str v9),
             (py ''Challan No'', Integer v10),
             (py ''Challan Serial No.'', Integer v11)]))))))))))))"

section \<open>TDS Payments, Income Tax Department: fields by label\<close>

text \<open>
  What \<^verbatim>\<open>PyPDF2\<close> gives for a document: the reader raises or gives the pages, and on
  each page \<^verbatim>\<open>extract_text()\<close> raises or gives a text.
\<close>

type_synonym pypdf = "exn + (exn + pystr) list"

fun income_tax_pages :: "pystr \<Rightarrow> (exn + pystr) list \<Rightarrow> exn + pystr" where
  "income_tax_pages acc [] = Inr acc"
| "income_tax_pages acc (p # ps) = then_do p (\<lambda>t. income_tax_pages (acc @ t) ps)"

definition process_income_tax :: "pypdf \<Rightarrow> exn + pystr" where
  "process_income_tax reader = then_do reader (\<lambda>pages. income_tax_pages [] pages)"

text \<open>
  \<^verbatim>\<open>line.split(sep)[-1]\<close> and the assignment \<^verbatim>\<open>details[key] = value\<close>: a dictionary
  keeps a key where it first entered and takes the new value.
\<close>

definition last_piece :: "pystr \<Rightarrow> pystr \<Rightarrow> exn + pystr" where
  "last_piece sep line = py_index (split_on sep line) (- 1)"

definition assign :: "pystr \<Rightarrow> pystr \<Rightarrow> (pystr \<times> pystr) list \<Rightarrow> (pystr \<times> pystr) list" where
  "assign key v details = AList.update key v details"

text \<open>The body of the loop over the lines: the chain of \<^verbatim>\<open>if\<close> and \<^verbatim>\<open>elif\<close>.\<close>

definition income_tax_line ::
  "(pystr \<times> pystr) list \<Rightarrow> pystr \<Rightarrow> exn + (pystr \<times> pystr) list"
where
  "income_tax_line details line =
     (if sublist (py ''Nature of Payment'') line then
        then_do (last_piece (py '':'') line)
          (\<lambda>v. Inr (assign (py ''Nature of Payment'') (strip v) details))
      else if sublist (py ''Amount (in Rs.)'') line then
        then_do (last_piece (py '':'') line)
          (\<lambda>v. Inr (assign (py ''Amount (in Rs.)'') (strip v) details))
      else if sublist (py ''Challan No'') line then
        then_do (last_piece (py '':'') line)
          (\<lambda>v. Inr (assign (py ''Challan No.'') (strip v) details))
      else if sublist (py ''Tender Date'') line then
        then_do (last_piece (py '':'') line)
          (\<lambda>tender_date_raw.
             then_do (py_index (split_on (py ''Tax Breakup Details'') tender_date_raw) 0)
               (\<lambda>c. Inr (assign (py ''Tender Date'') (strip c) details)))
      else if prefix (py ''DInterest'') line then
        then_do (last_piece [8377] line)
          (\<lambda>v. Inr (assign (py ''Interest'') (strip v) details))
      else if prefix (py ''EPenalty'') line then
        then_do (last_piece [8377] line)
          (\<lambda>v. Inr (assign (py ''Penalty'') (strip v) details))
      else if prefix (py ''FFee under section 234E'') line then
        then_do (last_piece [8377] line)
          (\<lambda>v. Inr (assign (py ''Fee (Sec. 234E)'') (strip v) details))
      else if prefix (py ''Total (A+B+C+D+E+F)'') line then
        then_do (last_piece [8377] line)
          (\<lambda>v. Inr (assign (py ''TOTAL'') (strip v) details))
      else Inr details)"

fun income_tax_lines ::
  "(pystr \<times> pystr) list \<Rightarrow> pystr list \<Rightarrow> exn + (pystr \<times> pystr) list"
where
  "income_tax_lines details [] = Inr details"
| "income_tax_lines details (line # ls) =
     then_do (income_tax_line details line) (\<lambda>details'. income_tax_lines details' ls)"

definition parse_income_tax_text :: "pystr \<Rightarrow> exn + (pystr \<times> pystr) list" where
  "parse_income_tax_text t = income_tax_lines [] (split_on [10] t)"

section \<open>The batch: one file after the other\<close>

text \<open>
  An uploaded file: its name, and what the two PDF libraries make of it. The selections
  of the two radio buttons are strings.
\<close>

record upload =
  name :: pystr
  plumber_of :: plumber
  pypdf_of :: pypdf

definition string_cells :: "(pystr \<times> pystr) list \<Rightarrow> (pystr \<times> 'f cell) list" where
  "string_cells d = map (\<lambda>(k, v). (k, Str v)) d"

text \<open>The body of the \<^verbatim>\<open>try\<close> block of the loop, up to \<open>combined_df\<close>.\<close>

definition process_file :: "'f runtime \<Rightarrow> pystr \<Rightarrow> pystr \<Rightarrow> upload \<Rightarrow> exn + 'f dataframe" where
  "process_file R option payment_option pdf_file =
     (if option = py ''TDS Returns'' then
        (let details_df = extract_details_from_pdf R (plumber_of pdf_file);
             table_df = extract_table_from_pdf (plumber_of pdf_file)
         in pd_concat [details_df, table_df])
      else if option = py ''TDS Payments'' \<and> payment_option = py ''HDFC Bank'' then
        then_do (process_hdfc_bank (plumber_of pdf_file))
          (\<lambda>raw_text. then_do (parse_hdfc_bank_text R raw_text)
             (\<lambda>parsed_data. Inr (DataFrame_records [parsed_data])))
      else if option = py ''TDS Payments'' \<and> payment_option = py ''Income Tax Department'' then
        then_do (process_income_tax (pypdf_of pdf_file))
          (\<lambda>raw_text. then_do (parse_income_tax_text raw_text)
             (\<lambda>parsed_data. Inr (DataFrame_records [string_cells parsed_data])))
      else Inl (Exn ''ValueError'' (py ''Invalid option selected.'')))"

text \<open>
  The handler of the loop shows \<^verbatim>\<open>f"Error processing '{pdf_file.name}': {e}"\<close> with
  \<^verbatim>\<open>st.error\<close>. The state of the loop is the list \<open>extracted_data\<close> and the messages
  shown so far.
\<close>

definition error_message :: "upload \<Rightarrow> exn \<Rightarrow> pystr" where
  "error_message pdf_file e =
     py ''Error processing '' @ [39] @ name pdf_file @ [39] @ py '': '' @ exn_msg e"

fun process_files ::
  "'f runtime \<Rightarrow> pystr \<Rightarrow> pystr \<Rightarrow> 'f dataframe list \<times> pystr list \<Rightarrow> upload list
     \<Rightarrow> 'f dataframe list \<times> pystr list"
where
  "process_files R option payment_option (extracted_data, shown) [] = (extracted_data, shown)"
| "process_files R option payment_option (extracted_data, shown) (pdf_file # rest) =
     (case process_file R option payment_option pdf_file of
        Inr combined_df \<Rightarrow>
          process_files R option payment_option (extracted_data @ [combined_df], shown) rest
      | Inl e \<Rightarrow>
          process_files R option payment_option
            (extracted_data, shown @ [error_message pdf_file e]) rest)"

text \<open>
  \<^verbatim>\<open>save_to_excel\<close> concatenates the frames it is given before it writes them; the
  writing itself is outside the model.
\<close>

definition save_to_excel :: "'f dataframe list \<Rightarrow> exn + 'f dataframe" where
  "save_to_excel data_frames = pd_concat data_frames"

text \<open>
  After the loop: with at least one frame the final table is their concatenation, which
  is displayed and saved; with none a warning is shown and there is no table.
\<close>

definition run_batch ::
  "'f runtime \<Rightarrow> pystr \<Rightarrow> pystr \<Rightarrow> upload list \<Rightarrow> (exn + 'f dataframe) option \<times> pystr list"
where
  "run_batch R option payment_option uploaded_files =
     (let (extracted_data, shown) = process_files R option payment_option ([], []) uploaded_files
      in (if extracted_data \<noteq> []
          then Some (then_do (pd_concat extracted_data) (\<lambda>final. save_to_excel [final]))
          else None, shown))"

section \<open>Specification vocabulary\<close>

text \<open>The columns of the field record that the TDS Returns profile promises.\<close>

definition schema :: "pystr list" where
  "schema = [py ''Period'', py ''Date Range'', py ''Form No.'', py ''Date'']"

text \<open>
  The table reconciler in the words of the specification: the rows that survive are those
  with six cells; the first survivor is removed when its first cell is the header label,
  in the source only if another survivor follows (\<open>reconciled\<close>), in the claim also when
  it is alone (\<open>reconciled_claimed\<close>).
\<close>

definition as_record :: "row \<Rightarrow> (pystr \<times> 'f cell) list" where
  "as_record r = zip headers (map cell_of r)"

definition surviving :: "row list \<Rightarrow> row list" where
  "surviving rs = filter (\<lambda>r. length r = 6) rs"

definition reconciled :: "row list \<Rightarrow> row list" where
  "reconciled rs =
     (let s = surviving rs
      in if 1 < length s \<and> hd (hd s) = Some (py ''Sr. No.'') then tl s else s)"

definition reconciled_claimed :: "row list \<Rightarrow> row list" where
  "reconciled_claimed rs =
     (let s = surviving rs
      in if s \<noteq> [] \<and> hd (hd s) = Some (py ''Sr. No.'') then tl s else s)"

text \<open>
  The prefix line parser in the words of the specification. \<open>after_char c s\<close> is the text
  after the last \<open>c\<close> of \<open>s\<close> (all of \<open>s\<close> when it has no \<open>c\<close>), \<open>before_label l s\<close> the
  text before the first \<open>l\<close> in \<open>s\<close> (all of \<open>s\<close> when it has no \<open>l\<close>). A rule is a
  predicate on the line, the field it is bound to, and how the value is taken from the
  line; the colon is 58 and the rupee sign 8377.
\<close>

definition after_char :: "int \<Rightarrow> pystr \<Rightarrow> pystr" where
  "after_char c s = rev (takeWhile (\<lambda>x. x \<noteq> c) (rev s))"

fun before_label :: "pystr \<Rightarrow> pystr \<Rightarrow> pystr" where
  "before_label l [] = []"
| "before_label l (c # cs) = (if prefix l (c # cs) then [] else c # before_label l cs)"

type_synonym rule = "(pystr \<Rightarrow> bool) \<times> pystr \<times> (pystr \<Rightarrow> pystr)"

definition after_colon :: "pystr \<Rightarrow> pystr" where
  "after_colon line = strip (after_char 58 line)"

definition after_rupee :: "pystr \<Rightarrow> pystr" where
  "after_rupee line = strip (after_char 8377 line)"

definition tender_date :: "pystr \<Rightarrow> pystr" where
  "tender_date line = strip (before_label (py ''Tax Breakup Details'') (after_char 58 line))"

definition rules_with :: "(pystr \<Rightarrow> pystr) \<Rightarrow> rule list" where
  "rules_with tender =
     [(sublist (py ''Nature of Payment''), py ''Nature of Payment'', after_colon),
      (sublist (py ''Amount (in Rs.)''), py ''Amount (in Rs.)'', after_colon),
      (sublist (py ''Challan No''), py ''Challan No.'', after_colon),
      (sublist (py ''Tender Date''), py ''Tender Date'', tender),
      (prefix (py ''DInterest''), py ''Interest'', after_rupee),
      (prefix (py ''EPenalty''), py ''Penalty'', after_rupee),
      (prefix (py ''FFee under section 234E''), py ''Fee (Sec. 234E)'', after_rupee),
      (prefix (py ''Total (A+B+C+D+E+F)''), py ''TOTAL'', after_rupee)]"

text \<open>
  The rules of the source cut the tender date at the section label; the rules of the
  claim take every colon field as the text after the last colon.
\<close>

definition rules :: "rule list" where
  "rules = rules_with tender_date"


text \<open>
  What a line contributes: the field and value of the first rule whose predicate holds,
  nothing when none holds. The value of a field after all lines is that of the last line
  that contributes to it.
\<close>

definition contribution :: "rule list \<Rightarrow> pystr \<Rightarrow> (pystr \<times> pystr) option" where
  "contribution rs line =
     (case find (\<lambda>(p, k, ex). p line) rs of None \<Rightarrow> None | Some (p, k, ex) \<Rightarrow> Some (k, ex line))"


text \<open>The dictionary after a line: its contribution assigned, if it has one.\<close>

definition apply_line ::
  "rule list \<Rightarrow> pystr \<Rightarrow> (pystr \<times> pystr) list \<Rightarrow> (pystr \<times> pystr) list"
where
  "apply_line rs line details =
     (case contribution rs line of None \<Rightarrow> details | Some (k, v) \<Rightarrow> assign k v details)"

definition field_names :: "pystr list" where
  "field_names = [py ''Nature of Payment'', py ''Amount (in Rs.)'', py ''Challan No.'',
                  py ''Tender Date'', py ''Interest'', py ''Penalty'', py ''Fee (Sec. 234E)'',
                  py ''TOTAL'']"

definition trimmed :: "pystr \<Rightarrow> bool" where
  "trimmed v = (v = [] \<or> (\<not> isspace (hd v) \<and> \<not> isspace (last v)))"

text \<open>The names of the eleven fields of the bank receipt, in the order of the source.\<close>

definition hdfc_fields :: "pystr list" where
  "hdfc_fields = [py ''Date of Receipt'', py ''Nature of Payment'', py ''Basic Tax'',
                  py ''Interest'', py ''Penalty'', py ''Fee (Sec. 234E)'', py ''TOTAL Amount'',
                  py ''Drawn on'', py ''Payment Realisation Date'', py ''Challan No'',
                  py ''Challan Serial No.'']"

text \<open>
  The batch in the words of the specification: the tables of the files that are processed
  without an exception, in the order of submission, and one message for each file whose
  processing raises, in the order of submission.
\<close>

definition successes :: "'f runtime \<Rightarrow> pystr \<Rightarrow> pystr \<Rightarrow> upload list \<Rightarrow> 'f dataframe list" where
  "successes R option payment_option ups =
     List.map_filter
       (\<lambda>up. case process_file R option payment_option up of Inr df \<Rightarrow> Some df | Inl e \<Rightarrow> None)
       ups"

definition failures :: "'f runtime \<Rightarrow> pystr \<Rightarrow> pystr \<Rightarrow> upload list \<Rightarrow> pystr list" where
  "failures R option payment_option ups =
     List.map_filter
       (\<lambda>up. case process_file R option payment_option up of
               Inr df \<Rightarrow> None
             | Inl e \<Rightarrow> Some (error_message up e))
       ups"

text \<open>That \<open>s\<close> occurs in \<open>t\<close>, for executable use on messages.\<close>

definition mentions :: "pystr \<Rightarrow> pystr \<Rightarrow> bool" where
  "mentions t s = sublist s t"

text \<open>A table is well formed when its labels are distinct and every row has a cell for each.\<close>

definition well_formed :: "'f dataframe \<Rightarrow> bool" where
  "well_formed df = (distinct (columns df) \<and> list_all (\<lambda>r. length r = length (columns df)) (rows df))"

section \<open>Sample runtime and documents\<close>

text \<open>
  A runtime for the samples, which are ASCII: the ASCII digits and word characters, and
  readers of plain decimal literals. \<open>plain_float\<close> reads \<^verbatim>\<open>digits\<close> or
  \<^verbatim>\<open>digits.digits\<close> as the pair \<open>(m, k)\<close> that stands for the number \<open>m / 10^k\<close>; on
  these literals \<^verbatim>\<open>float\<close> gives the double nearest to that number and \<^verbatim>\<open>int\<close> the
  integer that \<open>plain_int\<close> gives.
\<close>

type_synonym decimal = "int \<times> nat"

definition ascii_digit :: "int \<Rightarrow> bool" where
  "ascii_digit c = (48 \<le> c \<and> c \<le> 57)"

definition ascii_word :: "int \<Rightarrow> bool" where
  "ascii_word c = (ascii_digit c \<or> (65 \<le> c \<and> c \<le> 90) \<or> (97 \<le> c \<and> c \<le> 122) \<or> c = 95)"

fun digits_value :: "int \<Rightarrow> pystr \<Rightarrow> int" where
  "digits_value acc [] = acc"
| "digits_value acc (c # cs) = digits_value (acc * 10 + (c - 48)) cs"

definition plain_int :: "pystr \<Rightarrow> pystr + int" where
  "plain_int s =
     (let t = strip s
      in if t \<noteq> [] \<and> list_all ascii_digit t then Inr (digits_value 0 t)
         else Inl (py ''invalid literal for int() with base 10: '' @ [39] @ s @ [39]))"

definition plain_float :: "pystr \<Rightarrow> pystr + decimal" where
  "plain_float s =
     (let t = strip s;
          a = takeWhile (\<lambda>c. c \<noteq> 46) t;
          b = drop (length a + 1) t
      in if a \<noteq> [] \<and> list_all ascii_digit a \<and> list_all ascii_digit b
            \<and> (t = a \<or> (b \<noteq> [] \<and> t = a @ [46] @ b))
         then Inr (digits_value 0 (a @ b), length b)
         else Inl (py ''could not convert string to float: '' @ [39] @ s @ [39]))"

definition sample_runtime :: "decimal runtime" where
  "sample_runtime =
     \<lparr>is_digit = ascii_digit, is_word = ascii_word, float_of = plain_float, int_of = plain_int\<rparr>"

text \<open>A page with the given text and no table; texts with three, one and no form number.\<close>

definition text_page :: "pystr \<Rightarrow> page" where
  "text_page t = \<lparr>extract_text = Inr (Some t), extract_tables = Inr []\<rparr>"

definition three_forms :: pystr where
  "three_forms = py ''Form No. 26Q for the period Q3 Form No.27Q form no. 24Q''"

definition one_form :: pystr where
  "one_form = py ''Form No. 26Q Date: 15/01/2024''"

definition no_fields :: pystr where
  "no_fields = py ''Statement of account''"

text \<open>What opening a file that is not a PDF raises, and a page whose text cannot be read.\<close>

definition not_a_pdf :: exn where
  "not_a_pdf = Exn ''PDFSyntaxError'' (py ''No /Root object! - Is this really a PDF?'')"

definition broken_page :: page where
  "broken_page = \<lparr>extract_text = Inl (Exn ''PSEOF'' (py ''Unexpected EOF'')), extract_tables = Inr []\<rparr>"

text \<open>Rows of a table: the header row, a line item, a row of empty cells, a short row.\<close>

definition header_row :: row where
  "header_row = map Some headers"

definition data_row :: row where
  "data_row = [Some (py ''1''), Some (py ''Regular''), Some (py ''12''), Some (py ''1,00,000.00''),
               Some (py ''10,000.00''), Some (py ''10,000.00'')]"

definition blank_row :: row where
  "blank_row = [None, None, None, None, None, None]"

definition short_row :: row where
  "short_row = [Some (py ''Total''), None, Some (py ''12''), Some (py ''1,00,000.00''),
                Some (py ''10,000.00'')]"

definition table_page :: "row list list \<Rightarrow> page" where
  "table_page ts = \<lparr>extract_text = Inr None, extract_tables = Inr ts\<rparr>"

text \<open>A bank receipt of twenty lines in the fixed layout, and its first ten lines.\<close>

definition receipt_lines :: "pystr list" where
  "receipt_lines =
     [py ''HDFC BANK'',
      py ''Tax Payment Receipt'',
      py ''TAN ABCD12345E'',
      py ''Name ACME LTD'',
      py ''Assessment Year 2024-25'',
      py ''Major Head 0021'',
      py ''Minor Head 200'',
      py ''Nature of Payment 94C'',
      py ''Amount in words'',
      py ''Basic Tax 1,25,000.00'',
      py ''Challan No 281'',
      py ''Surcharge 0.00'',
      py ''Penalty 0.00 Date of Receipt 07/01/2024'',
      py ''Education Cess 0.00 Challan Serial No 12,345'',
      py ''Interest 1,500.50 BSR Code 0510308'',
      py ''Fee u/s 234E 200.00'',
      py ''TOTAL 1,26,700.50 Drawn on HDFC Bank'',
      py ''Rupees in words'',
      py ''Debit Account 0001'',
      py ''Payment Realisation Date 08/01/2024'']"

definition receipt :: pystr where
  "receipt = join [10] receipt_lines"

definition truncated_receipt :: pystr where
  "truncated_receipt = join [10] (take 10 receipt_lines)"



definition challan_text :: pystr where
  "challan_text =
     join [10] [py ''Challan Receipt'', py ''Nature of Payment : 94C'', py ''Remarks'',
                py ''DInterest '' @ [8377] @ py '' 1,500'', py ''Nature of Payment : 92B '']"

text \<open>Three uploads for the bank profile; the second holds the truncated receipt.\<close>

definition upload_of :: "string \<Rightarrow> pystr \<Rightarrow> upload" where
  "upload_of n t = \<lparr>name = py n, plumber_of = Inr [text_page t],
                    pypdf_of = Inr [Inr t]\<rparr>"

definition three_uploads :: "upload list" where
  "three_uploads = [upload_of ''a.pdf'' receipt, upload_of ''b.pdf'' truncated_receipt,
                    upload_of ''c.pdf'' receipt]"

text \<open>The record of the whole receipt and the one-row table made of it.\<close>

definition receipt_record :: "(pystr \<times> decimal cell) list" where
  "receipt_record =
     [(py ''Date of Receipt'', Str (py ''07/01/2024'')),
      (py ''Nature of Payment'', Str (py ''94C'')),
      (py ''Basic Tax'', Float (12500000, 2)),
      (py ''Interest'', Float (150050, 2)),
      (py ''Penalty'', Float (0, 2)),
      (py ''Fee (Sec. 234E)'', Float (20000, 2)),
      (py ''TOTAL Amount'', Float (12670050, 2)),
      (py ''Drawn on'', Str (py ''HDFC Bank'')),
      (py ''Payment Realisation Date'', Str (py ''08/01/2024'')),
      (py ''Challan No'', Integer 281),
      (py ''Challan Serial No.'', Integer 12345)]"

definition receipt_frame :: "decimal dataframe" where
  "receipt_frame = \<lparr>columns = hdfc_fields, rows = [map snd receipt_record]\<rparr>"

text \<open>A return of one page, with a text and a table of a header row and one line item.\<close>

definition return_upload :: upload where
  "return_upload =
     \<lparr>name = py ''r.pdf'',
      plumber_of = Inr [\<lparr>extract_text = Inr (Some one_form),
                        extract_tables = Inr [[header_row, data_row]]\<rparr>],
      pypdf_of = Inr []\<rparr>"


section \<open>Fields by pattern\<close>

lemma details_frame:
  "details_of_text R t =
     \<lparr>columns = schema,
      rows = [[Str (case search R False period_pattern t of
                      Some gs \<Rightarrow> group gs 1 | None \<Rightarrow> py ''Not found''),
               Str (case search R False date_range_pattern t of
                      Some gs \<Rightarrow> group gs 1 @ py '' to '' @ group gs 2 | None \<Rightarrow> py ''Not found''),
               Str (if 1 < length (form_no_matches R t) then form_no_matches R t ! 1
                    else py ''Not found''),
               Str (case search R False date_pattern t of
                      Some gs \<Rightarrow> group gs 1 | None \<Rightarrow> py ''Not found'')]]\<rparr>"
  by (simp add: details_of_text_def DataFrame_dict_def Let_def schema_def)

lemma schema_distinct: "distinct schema"
  by (simp add: schema_def py_def)

lemma schema_lookup:
  "cell_at schema [a, b, c, d] (py ''Period'') = a"
  "cell_at schema [a, b, c, d] (py ''Date Range'') = b"
  "cell_at schema [a, b, c, d] (py ''Form No.'') = c"
  "cell_at schema [a, b, c, d] (py ''Date'') = d"
  by (simp_all add: cell_at_def schema_def py_def)

lemma details_of_readable:
  "combine_text [] pages = Inr t \<Longrightarrow>
     extract_details_body R (Inr pages) = Inr (details_of_text R t)"
  by (simp add: extract_details_body_def then_do_def)

lemma details_from_readable:
  "combine_text [] pages = Inr t \<Longrightarrow>
     extract_details_from_pdf R (Inr pages) = details_of_text R t"
  by (simp add: extract_details_from_pdf_def details_of_readable)

lemma combine_text_page: "combine_text [] [text_page t] = Inr t"
  by (simp add: text_page_def then_do_def)

lemma three_forms_matches:
  "form_no_matches sample_runtime three_forms = [py ''26Q'', py ''27Q'', py ''24Q'']"
  by code_simp

lemma one_form_matches: "form_no_matches sample_runtime one_form = [py ''26Q'']"
  by code_simp

lemma no_fields_matches:
  "search sample_runtime False period_pattern no_fields = None"
  "search sample_runtime False date_range_pattern no_fields = None"
  "findall sample_runtime True form_no_box_pattern no_fields = []"
  "search sample_runtime False date_pattern no_fields = None"
  by code_simp+

text \<open>
  Claim C1. For every text of a document, whatever the Unicode tables of the runtime, the
  \<open>Form No.\<close> field of \<open>extract_details_from_pdf\<close> is the second match of the form-number
  pattern in document order when there are at least two matches, and \<open>Not found\<close> when
  there are fewer than two, one match included: matches \<open>[a, b, c]\<close> give \<open>b\<close>, a single
  match \<open>[a]\<close> gives \<open>Not found\<close>.
\<close>

theorem form_no_second_match:
  assumes "combine_text [] pages = Inr t"
  shows "(2 \<le> length (form_no_matches R t) \<longrightarrow>
            column_values (extract_details_from_pdf R (Inr pages)) (py ''Form No.'')
              = [Str (form_no_matches R t ! 1)])
       \<and> (length (form_no_matches R t) < 2 \<longrightarrow>
            column_values (extract_details_from_pdf R (Inr pages)) (py ''Form No.'')
              = [Str (py ''Not found'')])
       \<and> (\<forall>a b c. form_no_matches R t = [a, b, c] \<longrightarrow>
            column_values (extract_details_from_pdf R (Inr pages)) (py ''Form No.'') = [Str b])
       \<and> (\<forall>a. form_no_matches R t = [a] \<longrightarrow>
            column_values (extract_details_from_pdf R (Inr pages)) (py ''Form No.'')
              = [Str (py ''Not found'')])"
  using assms
  by (auto simp add: details_from_readable details_frame column_values_def schema_lookup)

theorem form_no_second_match_witness:
  "combine_text [] [text_page three_forms] = Inr three_forms
   \<and> form_no_matches sample_runtime three_forms = [py ''26Q'', py ''27Q'', py ''24Q'']
   \<and> column_values (extract_details_from_pdf sample_runtime (Inr [text_page three_forms]))
         (py ''Form No.'') = [Str (py ''27Q'')]
   \<and> combine_text [] [text_page one_form] = Inr one_form
   \<and> form_no_matches sample_runtime one_form = [py ''26Q'']
   \<and> column_values (extract_details_from_pdf sample_runtime (Inr [text_page one_form]))
         (py ''Form No.'') = [Str (py ''Not found'')]"
proof -
  have t3: "combine_text [] [text_page three_forms] = Inr three_forms"
    by (rule combine_text_page)
  have t1: "combine_text [] [text_page one_form] = Inr one_form"
    by (rule combine_text_page)
  have r3: "column_values (extract_details_from_pdf sample_runtime (Inr [text_page three_forms]))
              (py ''Form No.'') = [Str (py ''27Q'')]"
    using form_no_second_match [OF t3, of sample_runtime] by (simp add: three_forms_matches)
  have r1: "column_values (extract_details_from_pdf sample_runtime (Inr [text_page one_form]))
              (py ''Form No.'') = [Str (py ''Not found'')]"
    using form_no_second_match [OF t1, of sample_runtime] by (simp add: one_form_matches)
  show ?thesis
    using t3 t1 r3 r1 three_forms_matches one_form_matches by blast
qed

text \<open>
  Claim C2. \<open>extract_details_from_pdf\<close> lets no exception escape: whatever its body
  raises, the handler returns as a table, and what the body returns is the result. For
  every text of a document and each of the four fields, a pattern without a match in the
  text leaves exactly \<open>Not found\<close> in its field, and the body returns a table there: a
  missing match is a value, not an error.
\<close>

theorem no_match_gives_not_found:
  "(\<forall>e. extract_details_body R pdf = Inl e \<longrightarrow> extract_details_from_pdf R pdf = error_frame e)
   \<and> (\<forall>df. extract_details_body R pdf = Inr df \<longrightarrow> extract_details_from_pdf R pdf = df)
   \<and> (\<forall>pages t. pdf = Inr pages \<and> combine_text [] pages = Inr t \<longrightarrow>
          (\<exists>df. extract_details_body R pdf = Inr df)
        \<and> (search R False period_pattern t = None \<longrightarrow>
             column_values (extract_details_from_pdf R pdf) (py ''Period'')
               = [Str (py ''Not found'')])
        \<and> (search R False date_range_pattern t = None \<longrightarrow>
             column_values (extract_details_from_pdf R pdf) (py ''Date Range'')
               = [Str (py ''Not found'')])
        \<and> (findall R True form_no_box_pattern t = [] \<longrightarrow>
             column_values (extract_details_from_pdf R pdf) (py ''Form No.'')
               = [Str (py ''Not found'')])
        \<and> (search R False date_pattern t = None \<longrightarrow>
             column_values (extract_details_from_pdf R pdf) (py ''Date'')
               = [Str (py ''Not found'')]))"
proof (intro conjI allI impI)
  fix e
  assume "extract_details_body R pdf = Inl e"
  then show "extract_details_from_pdf R pdf = error_frame e"
    by (simp add: extract_details_from_pdf_def)
next
  fix df
  assume "extract_details_body R pdf = Inr df"
  then show "extract_details_from_pdf R pdf = df"
    by (simp add: extract_details_from_pdf_def)
next
  fix pages t
  assume a: "pdf = Inr pages \<and> combine_text [] pages = Inr t"
  then have body: "extract_details_body R pdf = Inr (details_of_text R t)"
    by (simp add: details_of_readable)
  have fields: "extract_details_from_pdf R pdf = details_of_text R t"
    using a by (simp add: details_from_readable)
  show "\<exists>df. extract_details_body R pdf = Inr df"
    using body by simp
  show "column_values (extract_details_from_pdf R pdf) (py ''Period'') = [Str (py ''Not found'')]"
    if "search R False period_pattern t = None"
    using that by (simp add: fields details_frame column_values_def schema_lookup)
  show "column_values (extract_details_from_pdf R pdf) (py ''Date Range'') = [Str (py ''Not found'')]"
    if "search R False date_range_pattern t = None"
    using that by (simp add: fields details_frame column_values_def schema_lookup)
  show "column_values (extract_details_from_pdf R pdf) (py ''Form No.'') = [Str (py ''Not found'')]"
    if "findall R True form_no_box_pattern t = []"
    using that
    by (simp add: fields details_frame column_values_def schema_lookup form_no_matches_def)
  show "column_values (extract_details_from_pdf R pdf) (py ''Date'') = [Str (py ''Not found'')]"
    if "search R False date_pattern t = None"
    using that by (simp add: fields details_frame column_values_def schema_lookup)
qed

theorem no_match_gives_not_found_witness:
  "combine_text [] [text_page no_fields] = Inr no_fields
   \<and> search sample_runtime False period_pattern no_fields = None
   \<and> search sample_runtime False date_range_pattern no_fields = None
   \<and> findall sample_runtime True form_no_box_pattern no_fields = []
   \<and> search sample_runtime False date_pattern no_fields = None
   \<and> column_values (extract_details_from_pdf sample_runtime (Inr [text_page no_fields]))
         (py ''Period'') = [Str (py ''Not found'')]
   \<and> column_values (extract_details_from_pdf sample_runtime (Inr [text_page no_fields]))
         (py ''Date Range'') = [Str (py ''Not found'')]
   \<and> column_values (extract_details_from_pdf sample_runtime (Inr [text_page no_fields]))
         (py ''Form No.'') = [Str (py ''Not found'')]
   \<and> column_values (extract_details_from_pdf sample_runtime (Inr [text_page no_fields]))
         (py ''Date'') = [Str (py ''Not found'')]
   \<and> extract_details_body sample_runtime (Inr [broken_page])
        = Inl (Exn ''PSEOF'' (py ''Unexpected EOF''))
   \<and> extract_details_from_pdf sample_runtime (Inr [broken_page])
        = error_frame (Exn ''PSEOF'' (py ''Unexpected EOF''))"
proof -
  have t: "combine_text [] [text_page no_fields] = Inr no_fields"
    by (rule combine_text_page)
  have b: "extract_details_body sample_runtime (Inr [broken_page])
             = Inl (Exn ''PSEOF'' (py ''Unexpected EOF''))"
    by (simp add: extract_details_body_def then_do_def broken_page_def)
  have h: "extract_details_from_pdf sample_runtime (Inr [broken_page])
             = error_frame (Exn ''PSEOF'' (py ''Unexpected EOF''))"
    using no_match_gives_not_found [of sample_runtime "Inr [broken_page]"] b by blast
  show ?thesis
    using no_match_gives_not_found [of sample_runtime "Inr [text_page no_fields]"]
      t no_fields_matches b h
    by blast
qed

text \<open>
  Claim C8, as stated: every document gives a record with the four columns of the schema,
  total failure included. It fails on a file that cannot be opened: the handler of
  \<open>extract_details_from_pdf\<close> returns a table whose only column is \<open>Error\<close>.
\<close>

theorem details_columns_counterexample:
  "columns (extract_details_from_pdf sample_runtime (Inl not_a_pdf)) = [py ''Error'']
   \<and> columns (extract_details_from_pdf sample_runtime (Inl not_a_pdf)) \<noteq> schema
   \<and> rows (extract_details_from_pdf sample_runtime (Inl not_a_pdf))
       = [[Str (py ''No /Root object! - Is this really a PDF?'')]]"
  by (simp add: extract_details_from_pdf_def extract_details_body_def then_do_def
        error_frame_def DataFrame_dict_def schema_def not_a_pdf_def py_def)

text \<open>
  Claim C8, amended. For every document whose pages are read without an exception, the
  record has exactly the columns \<open>Period\<close>, \<open>Date Range\<close>, \<open>Form No.\<close> and \<open>Date\<close>, each
  once, and one row of four strings, whether or not any pattern matches. When opening the
  document or reading a page raises, and only then, the record has the single column
  \<open>Error\<close> with the message of the exception.
\<close>

theorem details_columns:
  "(\<forall>pages t. pdf = Inr pages \<and> combine_text [] pages = Inr t \<longrightarrow>
        columns (extract_details_from_pdf R pdf) = schema
      \<and> distinct (columns (extract_details_from_pdf R pdf))
      \<and> (\<exists>p r f d. rows (extract_details_from_pdf R pdf) = [[Str p, Str r, Str f, Str d]]))
   \<and> (\<forall>e. extract_details_body R pdf = Inl e \<longrightarrow>
        extract_details_from_pdf R pdf
          = \<lparr>columns = [py ''Error''], rows = [[Str (exn_msg e)]]\<rparr>)
   \<and> (\<forall>e. (extract_details_body R pdf = Inl e)
          = (pdf = Inl e \<or> (\<exists>pages. pdf = Inr pages \<and> combine_text [] pages = Inl e)))"
proof (intro conjI allI impI)
  fix pages t
  assume a: "pdf = Inr pages \<and> combine_text [] pages = Inr t"
  then have eq: "extract_details_from_pdf R pdf = details_of_text R t"
    by (simp add: details_from_readable)
  show "columns (extract_details_from_pdf R pdf) = schema"
    by (simp add: eq details_frame)
  show "distinct (columns (extract_details_from_pdf R pdf))"
    by (simp add: eq details_frame schema_distinct)
  show "\<exists>p r f d. rows (extract_details_from_pdf R pdf) = [[Str p, Str r, Str f, Str d]]"
    by (simp add: eq details_frame)
next
  fix e
  assume "extract_details_body R pdf = Inl e"
  then show "extract_details_from_pdf R pdf
               = \<lparr>columns = [py ''Error''], rows = [[Str (exn_msg e)]]\<rparr>"
    by (simp add: extract_details_from_pdf_def error_frame_def DataFrame_dict_def)
next
  fix e
  show "(extract_details_body R pdf = Inl e)
          = (pdf = Inl e \<or> (\<exists>pages. pdf = Inr pages \<and> combine_text [] pages = Inl e))"
    by (cases pdf) (auto simp add: extract_details_body_def then_do_def split: sum.splits)
qed

theorem details_columns_witness:
  "combine_text [] [text_page no_fields] = Inr no_fields
   \<and> columns (extract_details_from_pdf sample_runtime (Inr [text_page no_fields])) = schema
   \<and> extract_details_body sample_runtime (Inr [broken_page])
        = Inl (Exn ''PSEOF'' (py ''Unexpected EOF''))
   \<and> extract_details_from_pdf sample_runtime (Inr [broken_page])
        = \<lparr>columns = [py ''Error''], rows = [[Str (py ''Unexpected EOF'')]]\<rparr>"
proof -
  have t: "combine_text [] [text_page no_fields] = Inr no_fields"
    by (rule combine_text_page)
  have b: "extract_details_body sample_runtime (Inr [broken_page])
             = Inl (Exn ''PSEOF'' (py ''Unexpected EOF''))"
    by (simp add: extract_details_body_def then_do_def broken_page_def)
  have c: "columns (extract_details_from_pdf sample_runtime (Inr [text_page no_fields])) = schema"
    using details_columns [of "Inr [text_page no_fields]" sample_runtime] t by blast
  have d: "extract_details_from_pdf sample_runtime (Inr [broken_page])
        = \<lparr>columns = [py ''Error''], rows = [[Str (py ''Unexpected EOF'')]]\<rparr>"
    using details_columns [of "Inr [broken_page]" sample_runtime] b by simp
  show ?thesis using t b c d by blast
qed

section \<open>Line items by table\<close>

lemma headers_length: "length headers = 6"
  by (simp add: headers_def)

lemma headers_distinct: "distinct headers"
  by (simp add: headers_def py_def)

lemma headers_nonempty: "headers \<noteq> []"
  by (simp add: headers_def)

lemma fold_keep_row:
  "fold keep_row rs acc = acc @ map as_record (surviving rs)"
  by (induction rs arbitrary: acc)
     (simp_all add: keep_row_def surviving_def as_record_def headers_length)

lemma first_cell_of_record:
  "length r = 6 \<Longrightarrow>
     (map_of (as_record r :: (pystr \<times> 'f cell) list) (py ''Sr. No.'') = Some (Str (py ''Sr. No.'')))
       = (hd r = Some (py ''Sr. No.''))"
  by (cases r) (auto simp add: as_record_def headers_def cell_of_def split: option.splits)

lemma surviving_length: "r \<in> set (surviving rs) \<Longrightarrow> length r = 6"
  by (simp add: surviving_def)

lemma table_data_reconciled:
  "(table_data_of rs :: (pystr \<times> 'f cell) list list) = map as_record (reconciled rs)"
proof -
  let ?s = "surviving rs"
  have td: "(table_data_of rs :: (pystr \<times> 'f cell) list list) = pop_header (map as_record ?s)"
    by (simp add: table_data_of_def fold_keep_row)
  show ?thesis
  proof (cases "1 < length ?s")
    case False
    then show ?thesis by (simp add: td pop_header_def reconciled_def Let_def)
  next
    case True
    then obtain r rest where s: "?s = r # rest" by (cases ?s) auto
    have "r \<in> set ?s" by (simp add: s)
    then have len: "length r = 6" by (rule surviving_length)
    show ?thesis
      using True len
      by (simp add: td pop_header_def reconciled_def Let_def s first_cell_of_record)
  qed
qed

text \<open>
  Claim C3, as stated: the header row is removed also when it is the only surviving row.
  On the single row of the six header labels the source keeps it: the guard
  \<^verbatim>\<open>len(table_data) > 1\<close> is false, and the row comes out as a line item.
\<close>

theorem header_removal_counterexample:
  "(table_data_of [header_row] :: (pystr \<times> decimal cell) list list) = [as_record header_row]
   \<and> reconciled_claimed [header_row] = []
   \<and> rows (extract_table_from_pdf (Inr [table_page [[header_row]]]) :: decimal dataframe)
       = [map Str headers]"
  by code_simp

text \<open>
  Claim C3, amended. For every flattened sequence of raw rows, the records of
  \<open>extract_table_from_pdf\<close> before the table is built are the rows with exactly six cells,
  in order, every other row being discarded without an error; and the first surviving
  row is removed, once, when its first cell is the label \<open>Sr. No.\<close> and at least one more
  row survives. A header row that is the only surviving row stays.
\<close>

theorem rows_reconciled:
  "(table_data_of rs :: (pystr \<times> 'f cell) list list) = map as_record (reconciled rs)"
  by (rule table_data_reconciled)

lemma reconciled_sample:
  "reconciled [short_row, header_row, data_row, header_row] = [data_row, header_row]"
  by code_simp

theorem rows_reconciled_witness:
  "(table_data_of [short_row, header_row, data_row, header_row] :: (pystr \<times> decimal cell) list list)
     = [as_record data_row, as_record header_row]"
  using rows_reconciled [of "[short_row, header_row, data_row, header_row]", where 'f = decimal]
  by (simp add: reconciled_sample)

lemma lookup_all:
  "distinct ks \<Longrightarrow> length vs = length ks \<Longrightarrow>
     map (\<lambda>k. case map_of (zip ks vs) k of Some v \<Rightarrow> v | None \<Rightarrow> NA) ks = vs"
proof (rule nth_equalityI)
  show "length (map (\<lambda>k. case map_of (zip ks vs) k of Some v \<Rightarrow> v | None \<Rightarrow> NA) ks) = length vs"
    if "length vs = length ks"
    using that by simp
next
  fix i
  assume d: "distinct ks" and l: "length vs = length ks"
    and i: "i < length (map (\<lambda>k. case map_of (zip ks vs) k of Some v \<Rightarrow> v | None \<Rightarrow> NA) ks)"
  then have "map_of (zip ks vs) (ks ! i) = Some (vs ! i)"
    by (simp add: map_of_zip_nth)
  then show "map (\<lambda>k. case map_of (zip ks vs) k of Some v \<Rightarrow> v | None \<Rightarrow> NA) ks ! i = vs ! i"
    using i by simp
qed

lemma add_new_seen: "set xs \<subseteq> set seen \<Longrightarrow> add_new seen xs = seen"
  by (induction xs arbitrary: seen) auto

lemma add_new_distinct: "distinct xs \<Longrightarrow> add_new [] xs = xs"
proof -
  have "distinct (seen @ xs) \<Longrightarrow> add_new seen xs = seen @ xs" for seen
    by (induction xs arbitrary: seen) auto
  from this [of "[]"] show "distinct xs \<Longrightarrow> add_new [] xs = xs" by simp
qed

lemma add_new_append: "add_new seen (xs @ ys) = add_new (add_new seen xs) ys"
  by (induction xs arbitrary: seen) auto

lemma add_new_set: "set (add_new seen xs) = set seen \<union> set xs"
  by (induction xs arbitrary: seen) auto

lemma ordered_union_same:
  "distinct ks \<Longrightarrow> ks \<noteq> [] \<or> kss \<noteq> [] \<Longrightarrow> \<forall>x \<in> set kss. x = ks \<Longrightarrow>
     ordered_union (ks # kss) = ks"
proof -
  assume d: "distinct ks" and a: "\<forall>x \<in> set kss. x = ks"
  have "set (concat kss) \<subseteq> set ks" using a by auto
  then show "ordered_union (ks # kss) = ks"
    using d by (simp add: ordered_union_def add_new_append add_new_distinct add_new_seen)
qed

lemma record_keys: "length r = 6 \<Longrightarrow> map fst (as_record r :: (pystr \<times> 'f cell) list) = headers"
  by (simp add: as_record_def headers_length)

lemma frame_of_records:
  assumes "s \<noteq> []" and "\<forall>r \<in> set s. length r = 6"
  shows "DataFrame_records (map as_record s)
           = (\<lparr>columns = headers, rows = map (map cell_of) s\<rparr> :: 'f dataframe)"
proof -
  obtain r rest where s: "s = r # rest" using assms(1) by (cases s) auto
  have keys: "map (map fst) (map as_record s :: (pystr \<times> 'f cell) list list)
                = headers # map (\<lambda>_. headers) rest"
    using assms(2) by (simp add: s record_keys comp_def cong: map_cong)
  have cols: "ordered_union (map (map fst) (map as_record s :: (pystr \<times> 'f cell) list list)) = headers"
    unfolding keys by (rule ordered_union_same) (simp_all add: headers_distinct headers_nonempty)
  have row: "map (\<lambda>c. case map_of (as_record x :: (pystr \<times> 'f cell) list) c of
                        Some v \<Rightarrow> v | None \<Rightarrow> NA) headers = map cell_of x"
    if "x \<in> set s" for x
    using that assms(2) unfolding as_record_def
    by (intro lookup_all) (simp_all add: headers_distinct headers_length)
  show ?thesis
    unfolding DataFrame_records_def Let_def cols
    by (simp add: row cong: map_cong)
qed

lemma cells_under_headers:
  "length r = 6 \<Longrightarrow> list_all (\<lambda>c. cell_at headers r c = NA) headers = list_all (\<lambda>v. v = NA) r"
proof -
  assume l: "length r = 6"
  have "map (cell_at headers r) headers = r"
    unfolding cell_at_def using l
    by (intro lookup_all) (simp_all add: headers_distinct headers_length)
  then have "list_all (\<lambda>v. v = NA) (map (cell_at headers r) headers) = list_all (\<lambda>v. v = NA) r"
    by simp
  then show ?thesis by (simp add: list_all_iff)
qed

lemma reconciled_subset: "set (reconciled rs) \<subseteq> set (surviving rs)"
proof (cases "surviving rs")
  case Nil
  then show ?thesis by (simp add: reconciled_def Let_def)
next
  case (Cons r rest)
  then show ?thesis by (auto simp add: reconciled_def Let_def)
qed

lemma reconciled_empty: "(reconciled rs = []) = (surviving rs = [])"
  by (cases "surviving rs") (auto simp add: reconciled_def Let_def)

text \<open>
  After the removal of the header row, a row whose six cells are all missing is dropped
  and every other row is kept, provided at least one row has six cells.
\<close>

lemma blank_rows_dropped:
  assumes "collect_rows [] pages = Inr rs" and "surviving rs \<noteq> []"
  shows "extract_table_from_pdf (Inr pages)
           = (\<lparr>columns = headers,
               rows = filter (\<lambda>r. \<not> list_all (\<lambda>v. v = NA) r) (map (map cell_of) (reconciled rs))\<rparr>
              :: 'f dataframe)"
proof -
  have six: "\<forall>r \<in> set (reconciled rs). length r = 6"
    using reconciled_subset surviving_length by blast
  have ne: "reconciled rs \<noteq> []"
    using assms(2) by (simp add: reconciled_empty)
  have frame: "DataFrame_records (table_data_of rs)
                 = (\<lparr>columns = headers, rows = map (map cell_of) (reconciled rs)\<rparr> :: 'f dataframe)"
    by (simp add: table_data_reconciled frame_of_records [OF ne six])
  have keep: "(\<not> list_all (\<lambda>c. cell_at headers (map cell_of r :: 'f cell list) c = NA) headers)
                = (\<not> list_all (\<lambda>v. v = NA) (map cell_of r :: 'f cell list))"
    if "r \<in> set (reconciled rs)" for r
    using that six by (simp add: cells_under_headers)
  have "filter (\<lambda>r. \<not> list_all (\<lambda>c. cell_at headers r c = NA) headers)
               (map (map cell_of) (reconciled rs))
          = filter (\<lambda>r. \<not> list_all (\<lambda>v. v = NA) r)
               (map (map cell_of) (reconciled rs) :: 'f cell list list)"
    using keep by (simp add: filter_map comp_def cong: filter_cong)
  then have "dropna_all headers (DataFrame_records (table_data_of rs))
               = Inr (\<lparr>columns = headers,
                      rows = filter (\<lambda>r. \<not> list_all (\<lambda>v. v = NA) r)
                               (map (map cell_of) (reconciled rs))\<rparr> :: 'f dataframe)"
    by (simp add: frame dropna_all_def)
  then show ?thesis
    using assms(1) by (simp add: extract_table_from_pdf_def extract_table_body_def then_do_def)
qed

text \<open>
  When no row has six cells, the table built from no record has no column, the lookup of
  the six headers by \<^verbatim>\<open>dropna\<close> raises \<^verbatim>\<open>KeyError\<close>, and the handler returns one row
  under the column \<open>Error\<close>.
\<close>

lemma no_rows_is_key_error:
  assumes "collect_rows [] pages = Inr rs" and "surviving rs = []"
  shows "extract_table_body (Inr pages)
           = (Inl (Exn ''KeyError'' (repr_labels headers)) :: exn + 'f dataframe)"
    and "extract_table_from_pdf (Inr pages)
           = (\<lparr>columns = [py ''Error''], rows = [[Str (repr_labels headers)]]\<rparr> :: 'f dataframe)"
proof -
  have "(table_data_of rs :: (pystr \<times> 'f cell) list list) = []"
    using assms(2) by (simp add: table_data_reconciled reconciled_empty)
  then have "dropna_all headers (DataFrame_records (table_data_of rs) :: 'f dataframe)
               = Inl (Exn ''KeyError'' (repr_labels headers))"
    by (simp add: DataFrame_records_def ordered_union_def dropna_all_def headers_def)
  then show b: "extract_table_body (Inr pages)
           = (Inl (Exn ''KeyError'' (repr_labels headers)) :: exn + 'f dataframe)"
    using assms(1) by (simp add: extract_table_body_def then_do_def)
  show "extract_table_from_pdf (Inr pages)
           = (\<lparr>columns = [py ''Error''], rows = [[Str (repr_labels headers)]]\<rparr> :: 'f dataframe)"
    by (simp add: extract_table_from_pdf_def b error_frame_def DataFrame_dict_def)
qed

text \<open>
  Claim C4. The claim asks for an empty table, not an error, when no row survives. On a
  document without a table, and on one whose only row has five cells, the source returns
  instead a table of one row under the single column \<open>Error\<close>, holding the text of the
  \<^verbatim>\<open>KeyError\<close> that names the six headers.
\<close>

theorem empty_table_is_error_row:
  "(extract_table_body (Inr [table_page []]) :: exn + decimal dataframe)
     = Inl (Exn ''KeyError'' (repr_labels headers))
   \<and> (extract_table_from_pdf (Inr [table_page []]) :: decimal dataframe)
     = \<lparr>columns = [py ''Error''], rows = [[Str (repr_labels headers)]]\<rparr>
   \<and> (extract_table_from_pdf (Inr [table_page [[short_row]]]) :: decimal dataframe)
     = \<lparr>columns = [py ''Error''], rows = [[Str (repr_labels headers)]]\<rparr>
   \<and> (extract_table_from_pdf (Inr [table_page [[blank_row, data_row]]]) :: decimal dataframe)
     = \<lparr>columns = headers, rows = [map cell_of data_row]\<rparr>"
  by code_simp

section \<open>Fields at fixed lines\<close>






















lemma index_error_names_nothing:
  "\<not> list_ex (mentions (exn_msg IndexError)) hdfc_fields"
  "\<not> list_ex ascii_digit (exn_msg IndexError)"
  by code_simp+




section \<open>Fields by label\<close>

lemma split_acc_nonempty: "split_acc sep cur s \<noteq> []"
  by (induction sep cur s rule: split_acc.induct) auto

lemma py_index_last: "xs \<noteq> [] \<Longrightarrow> py_index xs (- 1) = Inr (last xs)"
proof (cases xs)
  case Nil
  assume "xs \<noteq> []"
  with Nil show ?thesis by simp
next
  case (Cons a list)
  have "nat (int (length (a # list)) + - 1) = length list" by simp
  then show ?thesis
    using Cons by (simp add: py_index_def last_conv_nth)
qed

lemma py_index_hd: "xs \<noteq> [] \<Longrightarrow> py_index xs 0 = Inr (hd xs)"
  by (simp add: py_index_def hd_conv_nth)

lemma after_char_Cons:
  "after_char c (x # xs) = (if c \<in> set xs then after_char c xs else if x = c then xs else x # xs)"
proof (cases "c \<in> set xs")
  case True
  then have "\<exists>y \<in> set (rev xs). \<not> y \<noteq> c" by auto
  then have "takeWhile (\<lambda>y. y \<noteq> c) (rev xs @ [x]) = takeWhile (\<lambda>y. y \<noteq> c) (rev xs)"
    by (intro takeWhile_append1) auto
  then show ?thesis using True by (simp add: after_char_def)
next
  case False
  then have "\<forall>y \<in> set (rev xs). y \<noteq> c" by auto
  then have "takeWhile (\<lambda>y. y \<noteq> c) (rev xs @ [x]) = rev xs @ takeWhile (\<lambda>y. y \<noteq> c) [x]"
    by (intro takeWhile_append2) auto
  then show ?thesis using False by (auto simp add: after_char_def)
qed

lemma after_char_absent: "c \<notin> set s \<Longrightarrow> after_char c s = s"
proof -
  assume "c \<notin> set s"
  then have tw: "takeWhile (\<lambda>x. x \<noteq> c) (rev s) = rev s"
    by (auto simp add: takeWhile_eq_all_conv)
  show ?thesis unfolding after_char_def tw by simp
qed

text \<open>The last piece of a split at one character is the text after its last occurrence.\<close>

lemma last_split_char:
  "last (split_acc [c] cur s) = (if c \<in> set s then after_char c s else cur @ s)"
proof (induction s arbitrary: cur)
  case Nil
  then show ?case by simp
next
  case (Cons x xs)
  show ?case
  proof (cases "x = c")
    case True
    then show ?thesis
      using Cons [of "[]"] by (simp add: split_acc_nonempty after_char_Cons)
  next
    case False
    then show ?thesis
      using Cons [of "cur @ [x]"] by (simp add: after_char_Cons)
  qed
qed

lemma last_piece_char: "last_piece [c] line = Inr (after_char c line)"
  by (simp add: last_piece_def split_on_def py_index_last split_acc_nonempty last_split_char
        after_char_absent)

text \<open>The first piece of a split is the text before the first occurrence of the separator.\<close>

lemma hd_split: "sep \<noteq> [] \<Longrightarrow> hd (split_acc sep cur s) = cur @ before_label sep s"
  by (induction s arbitrary: cur) simp_all

lemma first_piece: "sep \<noteq> [] \<Longrightarrow> py_index (split_on sep s) 0 = Inr (before_label sep s)"
  by (simp add: split_on_def py_index_hd split_acc_nonempty hd_split)

lemma colon: "py '':'' = [58]"
  by (simp add: py_def)

lemma label_nonempty: "py ''Tax Breakup Details'' \<noteq> []"
  by (simp add: py_def)

text \<open>One line: the first rule whose predicate holds assigns its field, no rule leaves
  the dictionary as it is, and nothing is raised.\<close>

lemma line_by_rules:
  "income_tax_line details line = Inr (apply_line rules line details)"
  by (simp add: income_tax_line_def apply_line_def contribution_def rules_def rules_with_def
        colon last_piece_char first_piece label_nonempty then_do_def
        after_colon_def after_rupee_def tender_date_def)

lemma lines_by_rules:
  "income_tax_lines details ls = Inr (fold (apply_line rules) ls details)"
  by (induction ls arbitrary: details) (simp_all add: line_by_rules then_do_def)




lemma parse_by_rules:
  "parse_income_tax_text t = Inr (fold (apply_line rules) (split_on [10] t) [])"
  by (simp add: parse_income_tax_text_def lines_by_rules)

lemma trimmed_strip: "trimmed (strip s)"
proof (cases "strip s = []")
  case True
  then show ?thesis by (simp add: trimmed_def)
next
  case False
  let ?t = "dropWhile isspace s"
  let ?u = "dropWhile isspace (rev ?t)"
  have u: "strip s = rev ?u" by (simp add: strip_def)
  have une: "?u \<noteq> []" using False u by simp
  then have tne: "?t \<noteq> []" by (cases "dropWhile isspace s") auto
  have "\<not> isspace (hd ?u)" using une by (rule hd_dropWhile)
  then have l: "\<not> isspace (last (strip s))"
    using une by (simp add: u last_rev)
  have "rev ?t = takeWhile isspace (rev ?t) @ ?u" by simp
  then have "?t = rev ?u @ rev (takeWhile isspace (rev ?t))"
    by (metis rev_append rev_rev_ident)
  then have "hd ?t = hd (rev ?u)"
    using une by (metis hd_append2 rev_is_Nil_conv)
  moreover have "\<not> isspace (hd ?t)" using tne by (rule hd_dropWhile)
  ultimately have h: "\<not> isspace (hd (strip s))" by (simp add: u)
  show ?thesis using h l by (simp add: trimmed_def)
qed

lemma strip_trimmed: "trimmed v \<Longrightarrow> strip v = v"
proof (cases "v = []")
  case True
  then show ?thesis by (simp add: strip_def)
next
  case False
  assume "trimmed v"
  then have h: "\<not> isspace (hd v)" and l: "\<not> isspace (last v)"
    using False by (simp_all add: trimmed_def)
  have a: "dropWhile isspace v = v"
    using False h by (cases v) simp_all
  have "hd (rev v) = last v" using False by (simp add: hd_rev)
  then have "\<not> isspace (hd (rev v))" using l by simp
  then have b: "dropWhile isspace (rev v) = rev v"
    by (cases "rev v") simp_all
  show ?thesis by (simp add: strip_def a b)
qed

lemma rule_fields:
  "(p, k, ex) \<in> set rules \<Longrightarrow> k \<in> set field_names \<and> (\<exists>f. ex = (\<lambda>l. strip (f l)))"
  by (auto simp add: rules_def rules_with_def field_names_def after_colon_def after_rupee_def
        tender_date_def fun_eq_iff)

lemma contribution_field:
  assumes "contribution rules l = Some (k, v)"
  shows "k \<in> set field_names \<and> trimmed v"
proof -
  from assms obtain p ex
    where f: "find (\<lambda>(p, k, ex). p l) rules = Some (p, k, ex)" and v: "v = ex l"
    by (auto simp add: contribution_def split: option.splits)
  from f obtain i where "i < length rules" and "rules ! i = (p, k, ex)"
    by (auto simp add: find_Some_iff)
  then have "(p, k, ex) \<in> set rules"
    by (metis nth_mem)
  from rule_fields [OF this] v show ?thesis
    by (auto simp add: trimmed_strip)
qed

lemma apply_line_keeps:
  assumes "set (map fst d) \<subseteq> set field_names" and "distinct (map fst d)"
    and "\<forall>(k, v) \<in> set d. trimmed v"
  shows "set (map fst (apply_line rules l d)) \<subseteq> set field_names
       \<and> distinct (map fst (apply_line rules l d))
       \<and> (\<forall>(k, v) \<in> set (apply_line rules l d). trimmed v)"
proof (cases "contribution rules l")
  case None
  then show ?thesis using assms by (simp add: apply_line_def)
next
  case (Some kv)
  obtain k v where kv: "kv = (k, v)" by (cases kv)
  from contribution_field [of l k v] Some kv
  have k: "k \<in> set field_names" and t: "trimmed v" by simp_all
  have eq: "apply_line rules l d = AList.update k v d"
    using Some kv by (simp add: apply_line_def assign_def)
  have keys: "fst ` set (AList.update k v d) = {k} \<union> fst ` set d"
    by (rule dom_update)
  have vals: "set (AList.update k v d) \<subseteq> insert (k, v) (set d)"
    by (induction d) auto
  show ?thesis
    unfolding eq using assms k t keys vals
    by (auto simp add: distinct_update)
qed

lemma fold_keeps:
  assumes "set (map fst d) \<subseteq> set field_names" and "distinct (map fst d)"
    and "\<forall>(k, v) \<in> set d. trimmed v"
  shows "set (map fst (fold (apply_line rules) ls d)) \<subseteq> set field_names
       \<and> distinct (map fst (fold (apply_line rules) ls d))
       \<and> (\<forall>(k, v) \<in> set (fold (apply_line rules) ls d). trimmed v)"
  using assms
proof (induction ls arbitrary: d)
  case Nil
  then show ?case by simp
next
  case (Cons l ls)
  from apply_line_keeps [OF Cons.prems]
  have "set (map fst (apply_line rules l d)) \<subseteq> set field_names"
    and "distinct (map fst (apply_line rules l d))"
    and "\<forall>(k, v) \<in> set (apply_line rules l d). trimmed v"
    by simp_all
  from Cons.IH [OF this] show ?case by simp
qed


lemma challan_text_parsed:
  "parse_income_tax_text challan_text
     = Inr [(py ''Nature of Payment'', py ''92B''), (py ''Interest'', py ''1,500'')]"
  by code_simp





text \<open>
  Claim C10. For every input text \<open>parse_income_tax_text\<close> raises nothing: it returns a
  dictionary. Its keys are among the eight field names, each at most once, and every
  value is a string without whitespace at either end, which \<^verbatim>\<open>strip\<close> leaves as it is;
  no value is converted to a number, so the row made of the dictionary holds strings
  only.
\<close>

theorem prefix_parser_keys:
  "\<exists>d. parse_income_tax_text t = Inr d
      \<and> set (map fst d) \<subseteq> set field_names
      \<and> distinct (map fst d)
      \<and> (\<forall>(k, v) \<in> set d. trimmed v \<and> strip v = v)
      \<and> (\<forall>c \<in> set (map snd (string_cells d :: (pystr \<times> 'f cell) list)). \<exists>s. c = Str s)"
proof -
  let ?d = "fold (apply_line rules) (split_on [10] t) []"
  have p: "parse_income_tax_text t = Inr ?d" by (rule parse_by_rules)
  have k: "set (map fst ?d) \<subseteq> set field_names \<and> distinct (map fst ?d)
           \<and> (\<forall>(k, v) \<in> set ?d. trimmed v)"
    by (rule fold_keeps) simp_all
  then have v: "\<forall>(k, v) \<in> set ?d. trimmed v \<and> strip v = v"
    by (auto dest: strip_trimmed)
  have c: "\<forall>c \<in> set (map snd (string_cells ?d :: (pystr \<times> 'f cell) list)). \<exists>s. c = Str s"
    by (auto simp add: string_cells_def)
  show ?thesis using p k v c by blast
qed

theorem prefix_parser_keys_witness:
  "parse_income_tax_text challan_text
     = Inr [(py ''Nature of Payment'', py ''92B''), (py ''Interest'', py ''1,500'')]
   \<and> set [py ''Nature of Payment'', py ''Interest''] \<subseteq> set field_names
   \<and> trimmed (py ''92B'') \<and> strip (py ''92B'') = py ''92B''
   \<and> trimmed (py ''1,500'') \<and> strip (py ''1,500'') = py ''1,500''"
  using prefix_parser_keys [of challan_text, where 'f = decimal]
  by (simp add: challan_text_parsed)

end
